theory Spec2Isabelle
  imports Main "HOL-Library.Word" "HOL-Library.Sublist"
begin

text \<open>
  A model of main.py, the B-tree index over a file of 512-byte blocks: the node
  codec, the FileManager with its cache, and the tree operations. Every function
  whose text Python accepts is translated statement by statement; an exception is
  a result \<open>Inl\<close>, returned with the state as the statements before it left it.
  The command loop \<^verbatim>\<open>main\<close> is not modelled.
\<close>

section \<open>Constants of the index file (main.py, lines 22-27)\<close>

type_synonym byte = "8 word"

definition BLOCK_SIZE :: nat where
  "BLOCK_SIZE = 512"

text \<open>\<^verbatim>\<open>MAGIC = b"4348PRJ3"\<close>, as its eight ASCII codes.\<close>

definition MAGIC :: "byte list" where
  "MAGIC = [0x34, 0x33, 0x34, 0x38, 0x50, 0x52, 0x4A, 0x33]"

definition T :: nat where
  "T = 10"

definition MAX_KEYS :: nat where
  "MAX_KEYS = 2 * T - 1"

definition MAX_CHILDREN :: nat where
  "MAX_CHILDREN = 2 * T"

definition CACHE_SIZE :: nat where
  "CACHE_SIZE = 3"

section \<open>Python values, exceptions and the struct module\<close>

text \<open>
  The exceptions the modelled code can raise. \<open>StructError\<close> is \<^verbatim>\<open>struct.error\<close>;
  \<open>SeekError\<close> is what \<^verbatim>\<open>seek\<close> raises for a position it refuses; \<open>SyntaxError\<close>
  is the failure of a function whose text Python does not accept (line 250 of
  main.py, see \<open>BTree_insert\<close> below).
\<close>

datatype error =
    ValueError | TypeError | AttributeError | IndexError | StructError
  | SeekError | RecursionError | SyntaxError

text \<open>
  Python list indexing. An index is an integer; a negative one counts from the
  end, and one outside the list raises IndexError.
\<close>

definition py_index :: "'a list \<Rightarrow> int \<Rightarrow> error + nat" where
  "py_index xs i =
     (if 0 \<le> i \<and> i < int (length xs) then Inr (nat i)
      else if i < 0 \<and> - int (length xs) \<le> i then Inr (nat (int (length xs) + i))
      else Inl IndexError)"

definition py_get :: "'a list \<Rightarrow> int \<Rightarrow> error + 'a" where
  "py_get xs i = (case py_index xs i of Inl e \<Rightarrow> Inl e | Inr j \<Rightarrow> Inr (xs ! j))"

definition py_set :: "'a list \<Rightarrow> int \<Rightarrow> 'a \<Rightarrow> error + 'a list" where
  "py_set xs i v = (case py_index xs i of Inl e \<Rightarrow> Inl e | Inr j \<Rightarrow> Inr (xs[j := v]))"

text \<open>\<^verbatim>\<open>xs.insert(i, x)\<close>: the index is clipped to the list, never an error.\<close>

definition py_insert :: "int \<Rightarrow> 'a \<Rightarrow> 'a list \<Rightarrow> 'a list" where
  "py_insert i x xs =
     (let n = int (length xs); j = (if i < 0 then max 0 (n + i) else min i n)
      in take (nat j) xs @ x # drop (nat j) xs)"

text \<open>
  Format \<^verbatim>\<open>>Q\<close>: an unsigned 64-bit integer, big endian. Packing a Python integer
  outside \<open>0 .. 2^64 - 1\<close> raises \<^verbatim>\<open>struct.error\<close>.
\<close>

definition in_u64 :: "int \<Rightarrow> bool" where
  "in_u64 x = (0 \<le> x \<and> x < 2 ^ 64)"

fun be_bytes :: "nat \<Rightarrow> int \<Rightarrow> byte list" where
  "be_bytes 0 x = []"
| "be_bytes (Suc n) x = be_bytes n (x div 256) @ [word_of_int (x mod 256)]"

definition pack_Q :: "int \<Rightarrow> byte list" where
  "pack_Q x = be_bytes 8 x"

definition unpack_Q :: "byte list \<Rightarrow> int" where
  "unpack_Q bs = foldl (\<lambda>a b. a * 256 + uint b) 0 bs"

text \<open>
  A struct format, as far as main.py writes one, is a string of the characters
  \<^verbatim>\<open>>\<close> and \<^verbatim>\<open>Q\<close>. The byte-order character \<^verbatim>\<open>>\<close> may stand first only; anywhere
  else it is a bad character, and every function of the module that is given such
  a format raises \<^verbatim>\<open>struct.error\<close> (bad char in struct format). \<open>fmt_fields\<close> is
  the number of \<^verbatim>\<open>Q\<close> fields of a good format, \<open>calcsize\<close> its size in bytes.
\<close>

definition fmt_fields :: "string \<Rightarrow> error + nat" where
  "fmt_fields fmt =
     (let body = (if take 1 fmt = ''>'' then drop 1 fmt else fmt)
      in if list_all (\<lambda>c. c = CHR ''Q'') body then Inr (length body) else Inl StructError)"

definition calcsize :: "string \<Rightarrow> error + nat" where
  "calcsize fmt = (case fmt_fields fmt of Inl e \<Rightarrow> Inl e | Inr n \<Rightarrow> Inr (8 * n))"

text \<open>
  \<^verbatim>\<open>struct.unpack_from(fmt, data, offset)\<close>: the fields of the format, read from
  the offset on; \<^verbatim>\<open>struct.error\<close> for a bad format and for a buffer that is too
  short.
\<close>

definition unpack_from :: "string \<Rightarrow> byte list \<Rightarrow> nat \<Rightarrow> error + int list" where
  "unpack_from fmt data offset =
     (case fmt_fields fmt of
        Inl e \<Rightarrow> Inl e
      | Inr n \<Rightarrow>
          if length data < offset + 8 * n then Inl StructError
          else Inr (map (\<lambda>i. unpack_Q (take 8 (drop (offset + 8 * i) data))) [0..<n]))"

text \<open>
  \<^verbatim>\<open>struct.unpack(format, buffer)\<close> takes exactly two arguments; only
  \<^verbatim>\<open>unpack_from\<close> has an offset. The call \<^verbatim>\<open>struct.unpack('>Q', hdr, 8)\<close> of
  lines 59 and 60 passes three, which Python answers with TypeError
  (unpack expected 2 arguments, got 3) before reading the buffer.
\<close>

definition struct_unpack3 :: "byte list \<Rightarrow> nat \<Rightarrow> error + int" where
  "struct_unpack3 buffer offset = Inl TypeError"

section \<open>BTreeNode (lines 117-165)\<close>

text \<open>
  The constructor stores its \<^verbatim>\<open>children\<close> argument in the attribute
  \<^verbatim>\<open>num_children\<close>; \<^verbatim>\<open>is_leaf\<close>, \<^verbatim>\<open>to_bytes\<close> and \<^verbatim>\<open>search\<close> read that attribute.
  \<^verbatim>\<open>traverse\<close>, \<^verbatim>\<open>split_child\<close> and \<^verbatim>\<open>insert_nonfull\<close> use an attribute
  \<^verbatim>\<open>children\<close>, which no constructor sets: it exists on an object only once
  something has assigned it (\<open>None\<close> here while it does not, and reading it then
  raises AttributeError). \<open>values'\<close> is the attribute \<^verbatim>\<open>values\<close>.
\<close>

record BTreeNode =
  block_id :: int
  parent_id :: int
  keys :: "int list"
  values' :: "int list"
  num_children :: "int list"
  children :: "int list option"

definition BTreeNode_init :: "int \<Rightarrow> int \<Rightarrow> int list \<Rightarrow> int list \<Rightarrow> int list \<Rightarrow> BTreeNode" where
  "BTreeNode_init bid pid ks vs ch =
     \<lparr>block_id = bid, parent_id = pid, keys = ks, values' = vs, num_children = ch,
      children = None\<rparr>"

definition is_leaf :: "BTreeNode \<Rightarrow> bool" where
  "is_leaf node = (length (num_children node) = 0)"

text \<open>
  \<^verbatim>\<open>xs[i] if i < len(xs) else 0\<close> for \<open>i\<close> in \<^verbatim>\<open>range(n)\<close>: the slots one packing
  loop of \<^verbatim>\<open>to_bytes\<close> writes.
\<close>

definition slots :: "nat \<Rightarrow> int list \<Rightarrow> int list" where
  "slots n xs = map (\<lambda>i. if i < length xs then xs ! i else 0) [0..<n]"

text \<open>
  \<^verbatim>\<open>to_bytes\<close>: a zeroed buffer of 512 bytes, filled from offset 0 in steps of 8 with
  the header (block id, parent id, number of keys), 19 key slots, 19 value slots
  and 20 child slots; the last 24 bytes stay zero. Any packed number outside the
  unsigned 64-bit range raises \<^verbatim>\<open>struct.error\<close>; entries past the slot count are
  never looked at.
\<close>

definition node_fields :: "BTreeNode \<Rightarrow> int list" where
  "node_fields node =
     [block_id node, parent_id node, int (length (keys node))]
     @ slots MAX_KEYS (keys node)
     @ slots MAX_KEYS (values' node)
     @ slots MAX_CHILDREN (num_children node)"

definition node_block :: "BTreeNode \<Rightarrow> byte list" where
  "node_block node =
     concat (map pack_Q (node_fields node))
     @ replicate (BLOCK_SIZE - 8 * length (node_fields node)) 0"

definition to_bytes :: "BTreeNode \<Rightarrow> error + byte list" where
  "to_bytes node =
     (if list_all in_u64 (node_fields node) then Inr (node_block node) else Inl StructError)"

text \<open>\<^verbatim>\<open>HEADER_FMT = '>QQQ'\<close>: block id, parent id, number of keys.\<close>

definition HEADER_FMT :: string where
  "HEADER_FMT = ''>QQQ''"

text \<open>
  \<^verbatim>\<open>from_bytes\<close>: the header, then the key, value and child slots, each read with
  \<^verbatim>\<open>unpack_from\<close>, and the three lists cut to the number of keys (the child list
  to one more). The formats of the slots are written \<^verbatim>\<open>'>Q'*MAX_KEYS\<close> and
  \<^verbatim>\<open>'>Q'*MAX_CHILDREN\<close>, the string \<^verbatim>\<open>>Q\<close> repeated.
\<close>

definition from_bytes :: "byte list \<Rightarrow> error + BTreeNode" where
  "from_bytes data =
     (case unpack_from HEADER_FMT data 0 of
        Inl e \<Rightarrow> Inl e
      | Inr hdr \<Rightarrow>
     (case calcsize HEADER_FMT of
        Inl e \<Rightarrow> Inl e
      | Inr offset \<Rightarrow>
     (case unpack_from (concat (replicate MAX_KEYS ''>Q'')) data offset of
        Inl e \<Rightarrow> Inl e
      | Inr ks \<Rightarrow>
     (case unpack_from (concat (replicate MAX_KEYS ''>Q'')) data (offset + 8 * MAX_KEYS) of
        Inl e \<Rightarrow> Inl e
      | Inr vs \<Rightarrow>
     (case unpack_from (concat (replicate MAX_CHILDREN ''>Q'')) data
             (offset + 8 * MAX_KEYS + 8 * MAX_KEYS) of
        Inl e \<Rightarrow> Inl e
      | Inr ch \<Rightarrow>
          let bid = hdr ! 0; pid = hdr ! 1; nkeys = hdr ! 2
          in Inr (BTreeNode_init bid pid (take (nat nkeys) ks) (take (nat nkeys) vs)
                    (take (nat nkeys + 1) ch)))))))"

section \<open>The store: a FileManager, its file and the node objects\<close>

text \<open>
  Nodes are Python objects: the cache and the local variables of the tree
  operations refer to the same object, and the operations change its attributes in
  place. The model keeps the objects in \<open>heap\<close> (an object is its index there) and
  the cache holds addresses. \<open>disk\<close> is the content of the file behind \<^verbatim>\<open>fd\<close>, which
  is taken to be open; \<open>cache\<close> is the \<^verbatim>\<open>OrderedDict\<close>, oldest entry first.
\<close>

type_synonym addr = nat

record state =
  disk :: "byte list"
  root_id :: int
  next_block_id :: int
  cache :: "(int \<times> addr) list"
  heap :: "BTreeNode list"

text \<open>
  A statement sequence that may raise: the result is the exception or the value,
  together with the state as it is at that point (what was changed before an
  exception stays changed).
\<close>

type_synonym 'a io = "state \<Rightarrow> (error + 'a) \<times> state"

definition return :: "'a \<Rightarrow> 'a io" where
  "return x st = (Inr x, st)"

definition raise :: "error \<Rightarrow> 'a io" where
  "raise e st = (Inl e, st)"

definition lift :: "error + 'a \<Rightarrow> 'a io" where
  "lift r st = (r, st)"

definition io_bind :: "'a io \<Rightarrow> ('a \<Rightarrow> 'b io) \<Rightarrow> 'b io" where
  "io_bind m f st = (case m st of (Inl e, st') \<Rightarrow> (Inl e, st') | (Inr x, st') \<Rightarrow> f x st')"

subsection \<open>Node objects\<close>

definition new_node :: "BTreeNode \<Rightarrow> addr io" where
  "new_node n st = (Inr (length (heap st)), st\<lparr>heap := heap st @ [n]\<rparr>)"

text \<open>Reading an attribute that every node has (or calling \<^verbatim>\<open>is_leaf\<close>).\<close>

definition attr :: "addr \<Rightarrow> (BTreeNode \<Rightarrow> 'a) \<Rightarrow> 'a io" where
  "attr a f st = (Inr (f (heap st ! a)), st)"

definition update_node :: "addr \<Rightarrow> (BTreeNode \<Rightarrow> BTreeNode) \<Rightarrow> unit io" where
  "update_node a f st = (Inr (), st\<lparr>heap := (heap st)[a := f (heap st ! a)]\<rparr>)"

text \<open>\<^verbatim>\<open>node.keys[i] = v\<close> and \<^verbatim>\<open>node.values[i] = v\<close>.\<close>

definition set_key :: "addr \<Rightarrow> int \<Rightarrow> int \<Rightarrow> unit io" where
  "set_key a i v =
     io_bind (attr a keys) (\<lambda>ks.
     io_bind (lift (py_set ks i v)) (\<lambda>ks'. update_node a (\<lambda>n. n\<lparr>keys := ks'\<rparr>)))"

definition set_value :: "addr \<Rightarrow> int \<Rightarrow> int \<Rightarrow> unit io" where
  "set_value a i v =
     io_bind (attr a values') (\<lambda>vs.
     io_bind (lift (py_set vs i v)) (\<lambda>vs'. update_node a (\<lambda>n. n\<lparr>values' := vs'\<rparr>)))"

text \<open>Reading \<^verbatim>\<open>node.children\<close>: AttributeError while the attribute does not exist.\<close>

definition get_children :: "addr \<Rightarrow> int list io" where
  "get_children a st =
     (case children (heap st ! a) of None \<Rightarrow> (Inl AttributeError, st) | Some ch \<Rightarrow> (Inr ch, st))"

subsection \<open>The file\<close>

text \<open>
  \<^verbatim>\<open>seek\<close> refuses a negative position and one that does not fit a signed 64-bit
  offset; \<^verbatim>\<open>read\<close> returns what the file holds from the position on, at most \<open>n\<close>
  bytes; \<^verbatim>\<open>write\<close> past the end fills the gap with zeros. Failures of the
  operating system (a full disk, a file too large) are not modelled.
\<close>

definition fd_seek :: "int \<Rightarrow> error + nat" where
  "fd_seek pos =
     (if pos < 0 \<or> 2 ^ 63 \<le> pos then Inl SeekError else Inr (nat pos))"

definition fd_read :: "nat \<Rightarrow> nat \<Rightarrow> byte list \<Rightarrow> byte list" where
  "fd_read pos n file = take n (drop pos file)"

definition fd_write :: "nat \<Rightarrow> byte list \<Rightarrow> byte list \<Rightarrow> byte list" where
  "fd_write pos data file =
     take pos file @ replicate (pos - length file) 0 @ data @ drop (pos + length data) file"

subsection \<open>The OrderedDict\<close>

text \<open>
  \<^verbatim>\<open>cache[k] = v\<close> replaces the value of a key that is present where it stands, and
  appends a new key at the end; \<^verbatim>\<open>pop(k)\<close> removes the key;
  \<^verbatim>\<open>popitem(last=False)\<close> removes the first entry.
\<close>

fun od_set :: "int \<Rightarrow> addr \<Rightarrow> (int \<times> addr) list \<Rightarrow> (int \<times> addr) list" where
  "od_set k v [] = [(k, v)]"
| "od_set k v ((k', v') # c) = (if k' = k then (k, v) # c else (k', v') # od_set k v c)"

definition od_pop :: "int \<Rightarrow> (int \<times> addr) list \<Rightarrow> (int \<times> addr) list" where
  "od_pop k c = filter (\<lambda>(k', v). k' \<noteq> k) c"

definition evict :: "(int \<times> addr) list \<Rightarrow> (int \<times> addr) list" where
  "evict c = (if length c > CACHE_SIZE then tl c else c)"

section \<open>FileManager (lines 32-110)\<close>

text \<open>\<^verbatim>\<open>__init__\<close>, for a path whose file holds \<open>file\<close>.\<close>

definition FileManager_init :: "byte list \<Rightarrow> state" where
  "FileManager_init file =
     \<lparr>disk = file, root_id = 0, next_block_id = 1, cache = [], heap = []\<rparr>"

definition header_block :: "int \<Rightarrow> int \<Rightarrow> byte list" where
  "header_block r n = MAGIC @ pack_Q r @ pack_Q n @ replicate (BLOCK_SIZE - 24) 0"

text \<open>
  \<^verbatim>\<open>open\<close>. With \<^verbatim>\<open>create\<close> the file is truncated (mode \<^verbatim>\<open>w+b\<close>) and the header
  for root 0 and next block 1 is written; the attributes keep their values.
  Otherwise block 0 is read and compared with the magic number, and the two ids
  are read with \<^verbatim>\<open>struct.unpack\<close>.
\<close>

definition FileManager_open :: "bool \<Rightarrow> unit io" where
  "FileManager_open create st =
     (if create then (Inr (), st\<lparr>disk := header_block 0 1\<rparr>)
      else
        let hdr = fd_read 0 BLOCK_SIZE (disk st) in
        if take 8 hdr \<noteq> MAGIC then (Inl ValueError, st)
        else
          (case struct_unpack3 hdr 8 of
             Inl e \<Rightarrow> (Inl e, st)
           | Inr r \<Rightarrow>
               (case struct_unpack3 hdr 16 of
                  Inl e \<Rightarrow> (Inl e, st\<lparr>root_id := r\<rparr>)
                | Inr n \<Rightarrow> (Inr (), st\<lparr>root_id := r, next_block_id := n\<rparr>))))"

definition sync_header :: "unit io" where
  "sync_header st =
     (if in_u64 (root_id st) \<and> in_u64 (next_block_id st)
      then (Inr (), st\<lparr>disk := fd_write 0 (header_block (root_id st) (next_block_id st)) (disk st)\<rparr>)
      else (Inl StructError, st))"

definition allocate_block :: "int io" where
  "allocate_block st =
     (let bid = next_block_id st
      in io_bind sync_header (\<lambda>_. return bid) (st\<lparr>next_block_id := next_block_id st + 1\<rparr>))"

definition read_node :: "int \<Rightarrow> addr io" where
  "read_node bid st =
     (case map_of (cache st) bid of
        Some node \<Rightarrow> (Inr node, st\<lparr>cache := od_set bid node (od_pop bid (cache st))\<rparr>)
      | None \<Rightarrow>
          (case fd_seek (bid * int BLOCK_SIZE) of
             Inl e \<Rightarrow> (Inl e, st)
           | Inr pos \<Rightarrow>
               (case from_bytes (fd_read pos BLOCK_SIZE (disk st)) of
                  Inl e \<Rightarrow> (Inl e, st)
                | Inr n \<Rightarrow>
                    io_bind (new_node n)
                      (\<lambda>node st1. (Inr node, st1\<lparr>cache := evict (od_set bid node (cache st1))\<rparr>))
                      st)))"

definition write_node :: "addr \<Rightarrow> unit io" where
  "write_node node st =
     (let n = heap st ! node in
      case to_bytes n of
        Inl e \<Rightarrow> (Inl e, st)
      | Inr data \<Rightarrow>
          (case fd_seek (block_id n * int BLOCK_SIZE) of
             Inl e \<Rightarrow> (Inl e, st)
           | Inr pos \<Rightarrow>
               (Inr (), st\<lparr>disk := fd_write pos data (disk st),
                            cache := evict (od_set (block_id n) node (cache st))\<rparr>)))"

section \<open>BTree (lines 208-329)\<close>

text \<open>
  The recursive operations carry the depth of recursion Python still allows: a
  call with none left raises RecursionError, so every operation returns.
\<close>

subsection \<open>search\<close>

text \<open>\<^verbatim>\<open>while i < len(node.keys) and key > node.keys[i]: i += 1\<close>\<close>

function scan :: "int list \<Rightarrow> int \<Rightarrow> nat \<Rightarrow> nat" where
  "scan ks key i = (if i < length ks \<and> key > ks ! i then scan ks key (Suc i) else i)"
  by pat_completeness auto
termination
  by (relation "measure (\<lambda>(ks, key, i). length ks - i)") auto

declare scan.simps [simp del]

fun search :: "nat \<Rightarrow> int \<Rightarrow> int \<Rightarrow> int option io" where
  "search 0 bid key = raise RecursionError"
| "search (Suc d) bid key =
     (if bid = 0 then return None
      else
        io_bind (read_node bid) (\<lambda>node.
        io_bind (attr node keys) (\<lambda>ks.
          let i = scan ks key 0 in
          if i < length ks \<and> key > ks ! i
          then io_bind (attr node values') (\<lambda>vs.
               io_bind (lift (py_get vs (int i))) (\<lambda>v. return (Some v)))
          else
            io_bind (attr node is_leaf) (\<lambda>leaf.
              if leaf then return None
              else io_bind (attr node num_children) (\<lambda>ch.
                   io_bind (lift (py_get ch (int i))) (\<lambda>c. search d c key))))))"

subsection \<open>traverse and collect\<close>

text \<open>
  \<^verbatim>\<open>visit\<close> is \<^verbatim>\<open>pairs.append\<close>: the pairs visited so far are passed along.
  \<open>traverse_keys\<close> is the loop over \<^verbatim>\<open>enumerate(node.keys)\<close>, at index \<open>i\<close> with the
  keys still to come.
\<close>

fun traverse :: "nat \<Rightarrow> int \<Rightarrow> (int \<times> int) list \<Rightarrow> (int \<times> int) list io"
  and traverse_keys ::
    "nat \<Rightarrow> addr \<Rightarrow> nat \<Rightarrow> int list \<Rightarrow> (int \<times> int) list \<Rightarrow> (int \<times> int) list io" where
  "traverse 0 bid pairs = raise RecursionError"
| "traverse (Suc d) bid pairs =
     (if bid = 0 then return pairs
      else
        io_bind (read_node bid) (\<lambda>node.
        io_bind (attr node keys) (\<lambda>ks.
        io_bind (traverse_keys d node 0 ks pairs) (\<lambda>pairs1.
        io_bind (attr node is_leaf) (\<lambda>leaf.
          if \<not> leaf
          then io_bind (get_children node) (\<lambda>ch.
               io_bind (attr node keys) (\<lambda>ks1.
               io_bind (lift (py_get ch (int (length ks1)))) (\<lambda>c. traverse d c pairs1)))
          else return pairs1)))))"
| "traverse_keys d node i [] pairs = return pairs"
| "traverse_keys d node i (k # ks) pairs =
     io_bind (attr node is_leaf) (\<lambda>leaf.
     io_bind (if \<not> leaf
              then io_bind (get_children node) (\<lambda>ch.
                   io_bind (lift (py_get ch (int i))) (\<lambda>c. traverse d c pairs))
              else return pairs) (\<lambda>pairs1.
     io_bind (attr node values') (\<lambda>vs.
     io_bind (lift (py_get vs (int i))) (\<lambda>v.
       traverse_keys d node (Suc i) ks (pairs1 @ [(k, v)])))))"

definition collect :: "nat \<Rightarrow> (int \<times> int) list io" where
  "collect d st = traverse d (root_id st) [] st"

subsection \<open>split_child\<close>

text \<open>
  The loop over \<^verbatim>\<open>z.children\<close> that gives the moved children their new parent.
\<close>

fun reparent :: "int \<Rightarrow> int list \<Rightarrow> unit io" where
  "reparent z_bid [] = return ()"
| "reparent z_bid (c # cs) =
     (if c \<noteq> 0
      then io_bind (read_node c) (\<lambda>child.
           io_bind (update_node child (\<lambda>n. n\<lparr>parent_id := z_bid\<rparr>)) (\<lambda>_.
           io_bind (write_node child) (\<lambda>_. reparent z_bid cs)))
      else reparent z_bid cs)"

definition split_child :: "addr \<Rightarrow> int \<Rightarrow> unit io" where
  "split_child parent i =
     (let t = T in
      io_bind (get_children parent) (\<lambda>pch.
      io_bind (lift (py_get pch i)) (\<lambda>y_bid.
      io_bind (read_node y_bid) (\<lambda>y.
      io_bind allocate_block (\<lambda>z_bid.
      io_bind (attr parent block_id) (\<lambda>p_bid.
      io_bind (new_node (BTreeNode_init z_bid p_bid [] [] [])) (\<lambda>z.
      io_bind (attr y keys) (\<lambda>yk.
      io_bind (lift (py_get yk (int t - 1))) (\<lambda>mid_key.
      io_bind (attr y values') (\<lambda>yv.
      io_bind (lift (py_get yv (int t - 1))) (\<lambda>mid_val.
      io_bind (attr y keys) (\<lambda>yk1.
      io_bind (update_node z (\<lambda>n. n\<lparr>keys := take t yk1\<rparr>)) (\<lambda>_.
      io_bind (attr y values') (\<lambda>yv1.
      io_bind (update_node z (\<lambda>n. n\<lparr>values' := take t yv1\<rparr>)) (\<lambda>_.
      io_bind (attr y keys) (\<lambda>yk2.
      io_bind (update_node y (\<lambda>n. n\<lparr>keys := take (t - 1) yk2\<rparr>)) (\<lambda>_.
      io_bind (attr y values') (\<lambda>yv2.
      io_bind (update_node y (\<lambda>n. n\<lparr>values' := take (t - 1) yv2\<rparr>)) (\<lambda>_.
      io_bind (attr y is_leaf) (\<lambda>leaf.
      io_bind (if \<not> leaf
               then io_bind (get_children y) (\<lambda>ych.
                    io_bind (update_node z (\<lambda>n. n\<lparr>children := Some (drop t ych)\<rparr>)) (\<lambda>_.
                    io_bind (get_children y) (\<lambda>ych1.
                    io_bind (update_node y (\<lambda>n. n\<lparr>children := Some (take t ych1)\<rparr>)) (\<lambda>_.
                    io_bind (get_children z) (\<lambda>zch. reparent z_bid zch)))))
               else return ()) (\<lambda>_.
      io_bind (attr parent keys) (\<lambda>pk.
      io_bind (update_node parent (\<lambda>n. n\<lparr>keys := py_insert i mid_key pk\<rparr>)) (\<lambda>_.
      io_bind (attr parent values') (\<lambda>pv.
      io_bind (update_node parent (\<lambda>n. n\<lparr>values' := py_insert i mid_val pv\<rparr>)) (\<lambda>_.
      io_bind (get_children parent) (\<lambda>pch1.
      io_bind (update_node parent (\<lambda>n. n\<lparr>children := Some (py_insert (i + 1) z_bid pch1)\<rparr>)) (\<lambda>_.
      io_bind (write_node y) (\<lambda>_.
      io_bind (write_node z) (\<lambda>_.
      write_node parent)))))))))))))))))))))))))))))"

subsection \<open>insert_nonfull and insert\<close>

text \<open>
  The loop of the leaf case, which moves the larger keys and their values one
  place to the right, from index \<open>i\<close> down; it returns the final \<open>i\<close>.
\<close>

function shift_right :: "addr \<Rightarrow> int \<Rightarrow> int \<Rightarrow> int io" where
  "shift_right node key i st =
     (if 0 \<le> i
      then io_bind (attr node keys) (\<lambda>ks.
           io_bind (lift (py_get ks i)) (\<lambda>k.
             if key < k
             then io_bind (set_key node (i + 1) k) (\<lambda>_.
                  io_bind (attr node values') (\<lambda>vs.
                  io_bind (lift (py_get vs i)) (\<lambda>v.
                  io_bind (set_value node (i + 1) v) (\<lambda>_.
                    shift_right node key (i - 1)))))
             else return i)) st
      else return i st)"
  by pat_completeness auto
termination
  by (relation "measure (\<lambda>(node, key, i, st). nat (i + 1))") auto

declare shift_right.simps [simp del]

text \<open>
  The loop of the internal case:
  \<^verbatim>\<open>while i >= 0 and key < node.keys[i]: i -= 1\<close>.
\<close>

function descend :: "int list \<Rightarrow> int \<Rightarrow> int \<Rightarrow> int" where
  "descend ks key i = (if 0 \<le> i \<and> key < ks ! nat i then descend ks key (i - 1) else i)"
  by pat_completeness auto
termination
  by (relation "measure (\<lambda>(ks, key, i). nat (i + 1))") auto

declare descend.simps [simp del]

fun insert_nonfull :: "nat \<Rightarrow> addr \<Rightarrow> int \<Rightarrow> int \<Rightarrow> unit io" where
  "insert_nonfull 0 node key value = raise RecursionError"
| "insert_nonfull (Suc d) node key value =
     io_bind (attr node is_leaf) (\<lambda>leaf.
       if leaf
       then io_bind (attr node keys) (\<lambda>ks.
            let i = int (length ks) - 1 in
            io_bind (update_node node (\<lambda>n. n\<lparr>keys := keys n @ [0]\<rparr>)) (\<lambda>_.
            io_bind (update_node node (\<lambda>n. n\<lparr>values' := values' n @ [0]\<rparr>)) (\<lambda>_.
            io_bind (shift_right node key i) (\<lambda>i1.
            io_bind (set_key node (i1 + 1) key) (\<lambda>_.
            io_bind (set_value node (i1 + 1) value) (\<lambda>_.
            write_node node))))))
       else io_bind (attr node keys) (\<lambda>ks.
            let i = descend ks key (int (length ks) - 1) + 1 in
            io_bind (get_children node) (\<lambda>ch.
            io_bind (lift (py_get ch i)) (\<lambda>c.
            io_bind (read_node c) (\<lambda>child.
            io_bind (attr child keys) (\<lambda>cks.
              if length cks = MAX_KEYS
              then io_bind (split_child node i) (\<lambda>_.
                   io_bind (attr node keys) (\<lambda>ks1.
                   io_bind (lift (py_get ks1 i)) (\<lambda>k.
                   let i1 = (if key > k then i + 1 else i) in
                   io_bind (get_children node) (\<lambda>ch1.
                   io_bind (lift (py_get ch1 i1)) (\<lambda>c1.
                   io_bind (read_node c1) (\<lambda>child1.
                     insert_nonfull d child1 key value))))))
              else insert_nonfull d child key value))))))"

text \<open>
  \<^verbatim>\<open>insert\<close>, lines 243-267 (named \<open>BTree_insert\<close>, since \<open>insert\<close> is HOL's set
  insertion). Line 250, \<^verbatim>\<open>self.bfile.root-id = bid\<close>, is not an assignment: its
  target is the difference \<^verbatim>\<open>self.bfile.root - id\<close>. Python compiles a function
  before it runs any of it and rejects this one (SyntaxError: cannot assign to
  expression), so no statement of \<^verbatim>\<open>insert\<close> is ever run, in the empty-tree case
  or the other: nothing is allocated, written or inserted, and \<^verbatim>\<open>root_id\<close> is
  never assigned. (Line 251 also calls \<^verbatim>\<open>syn_header\<close>, a method FileManager does
  not have.) A call of \<^verbatim>\<open>insert\<close> is that failure, in the state as it was.
\<close>

definition BTree_insert :: "int \<Rightarrow> int \<Rightarrow> unit io" where
  "BTree_insert key value = raise SyntaxError"

section \<open>Definitions used to state the properties\<close>

text \<open>\<open>n\<close> calls of \<^verbatim>\<open>allocate_block\<close> in a row, with the ids they return in order.\<close>

fun allocate_blocks :: "nat \<Rightarrow> int list io" where
  "allocate_blocks 0 = return []"
| "allocate_blocks (Suc n) =
     io_bind allocate_block (\<lambda>bid.
     io_bind (allocate_blocks n) (\<lambda>bids. return (bid # bids)))"

text \<open>
  \<open>keeps R m\<close>: from every state, the statement sequence \<open>m\<close> ends (normally or
  with an exception) in a state related to the first by \<open>R\<close>.
\<close>

definition keeps :: "(state \<Rightarrow> state \<Rightarrow> bool) \<Rightarrow> 'a io \<Rightarrow> bool" where
  "keeps R m = (\<forall>st. R st (snd (m st)))"

text \<open>
  \<open>unchanged st st'\<close>: the file, the root id and the next block id are the same,
  and the node objects of \<open>st\<close> are still there with the same attributes (new
  objects may have been made).
\<close>

definition unchanged :: "state \<Rightarrow> state \<Rightarrow> bool" where
  "unchanged st st' =
     (disk st' = disk st \<and> root_id st' = root_id st \<and> next_block_id st' = next_block_id st
      \<and> prefix (heap st) (heap st'))"

text \<open>\<open>yields P m\<close>: whenever \<open>m\<close> returns normally, its value satisfies \<open>P\<close>.\<close>

definition yields :: "('a \<Rightarrow> bool) \<Rightarrow> 'a io \<Rightarrow> bool" where
  "yields P m = (\<forall>st. case fst (m st) of Inl e \<Rightarrow> True | Inr x \<Rightarrow> P x)"

text \<open>
  The store right after \<^verbatim>\<open>create\<close>: a new FileManager, opened with
  \<^verbatim>\<open>create=True\<close>.
\<close>

definition fresh_index :: state where
  "fresh_index = snd (FileManager_open True (FileManager_init []))"

text \<open>
  A sequence of \<^verbatim>\<open>insert\<close> calls on one store, each call starting in the state
  the one before left.
\<close>

fun insert_all :: "(int \<times> int) list \<Rightarrow> state \<Rightarrow> state" where
  "insert_all [] st = st"
| "insert_all ((k, v) # kvs) st = insert_all kvs (snd (BTree_insert k v st))"

text \<open>
  The least recently accessed block, in the words of the spec's glossary (a cache
  "evicting the least-recently-accessed entry"): of the cached block ids, the one
  whose last access lies furthest back in the list of accesses (oldest first).
\<close>

definition least_recently_accessed :: "int list \<Rightarrow> int list \<Rightarrow> int option" where
  "least_recently_accessed accesses cached =
     (case filter (\<lambda>b. b \<in> set cached) (remdups accesses) of
        [] \<Rightarrow> None
      | b # _ \<Rightarrow> Some b)"

text \<open>
  The store after \<^verbatim>\<open>create\<close>, four calls of \<^verbatim>\<open>allocate_block\<close> and the four
  constructor calls \<^verbatim>\<open>BTreeNode(1)\<close> to \<^verbatim>\<open>BTreeNode(4)\<close>: four empty leaves, the
  objects 0 to 3, none of them written or cached yet.
\<close>

definition four_nodes :: state where
  "four_nodes =
     \<lparr>disk = header_block 0 5, root_id = 0, next_block_id = 5, cache = [],
      heap = [BTreeNode_init 1 0 [] [] [], BTreeNode_init 2 0 [] [] [],
              BTreeNode_init 3 0 [] [] [], BTreeNode_init 4 0 [] [] []]\<rparr>"

section \<open>Auxiliary facts\<close>

lemmas const_defs = BLOCK_SIZE_def T_def MAX_KEYS_def MAX_CHILDREN_def CACHE_SIZE_def

lemmas io_defs = return_def raise_def lift_def io_bind_def attr_def update_node_def
  new_node_def get_children_def set_key_def set_value_def

subsection \<open>The codec\<close>

lemma length_be_bytes: "length (be_bytes n x) = n"
  by (induction n arbitrary: x) auto

lemma length_pack_Q: "length (pack_Q x) = 8"
  by (simp add: pack_Q_def length_be_bytes)

lemma length_concat_pack_Q: "length (concat (map pack_Q fs)) = 8 * length fs"
  by (induction fs) (auto simp: length_pack_Q)

lemma length_slots: "length (slots n xs) = n"
  by (simp add: slots_def)

lemma length_node_fields: "length (node_fields n) = 61"
  by (simp add: node_fields_def length_slots const_defs)

lemma length_to_bytes: "to_bytes n = Inr data \<Longrightarrow> length data = BLOCK_SIZE"
  by (auto simp: to_bytes_def node_block_def length_concat_pack_Q length_node_fields
      BLOCK_SIZE_def split: if_splits)

subsection \<open>The file\<close>

lemma length_header_block: "length (header_block r n) = BLOCK_SIZE"
  by (simp add: header_block_def MAGIC_def length_pack_Q BLOCK_SIZE_def)

lemma fd_read_fd_write:
  "pos \<le> length file \<Longrightarrow> fd_read pos (length data) (fd_write pos data file) = data"
  by (simp add: fd_read_def fd_write_def)

lemma fd_read_fd_write_below:
  "p + n \<le> pos \<Longrightarrow> pos \<le> length file \<Longrightarrow>
     fd_read p n (fd_write pos data file) = fd_read p n file"
  by (simp add: fd_read_def fd_write_def take_drop min_def)

subsection \<open>allocate_block\<close>

lemma sync_header_ok:
  "in_u64 (root_id st) \<Longrightarrow> in_u64 (next_block_id st) \<Longrightarrow>
     sync_header st =
       (Inr (), st\<lparr>disk := fd_write 0 (header_block (root_id st) (next_block_id st)) (disk st)\<rparr>)"
  by (simp add: sync_header_def)

lemma allocate_block_ok:
  assumes "in_u64 (root_id st)" "in_u64 (next_block_id st + 1)"
  shows "allocate_block st =
     (Inr (next_block_id st),
      st\<lparr>next_block_id := next_block_id st + 1,
         disk := fd_write 0 (header_block (root_id st) (next_block_id st + 1)) (disk st)\<rparr>)"
  using assms by (simp add: allocate_block_def sync_header_def io_defs)


lemma allocate_blocks_ok:
  assumes "in_u64 (root_id st)" "in_u64 (next_block_id st)"
    "in_u64 (next_block_id st + int n)"
  shows "\<exists>st'. allocate_blocks n st = (Inr (map (\<lambda>i. next_block_id st + int i) [0..<n]), st')
           \<and> next_block_id st' = next_block_id st + int n \<and> root_id st' = root_id st
           \<and> cache st' = cache st \<and> heap st' = heap st
           \<and> (if n = 0 then disk st' = disk st
               else fd_read 0 BLOCK_SIZE (disk st') = header_block (root_id st) (next_block_id st'))"
  using assms
proof (induction n arbitrary: st)
  case 0
  then show ?case by (simp add: io_defs)
next
  case (Suc n)
  let ?st1 = "st\<lparr>next_block_id := next_block_id st + 1,
      disk := fd_write 0 (header_block (root_id st) (next_block_id st + 1)) (disk st)\<rparr>"
  have r1: "in_u64 (next_block_id st + 1)"
    using Suc.prems by (auto simp: in_u64_def)
  have a: "allocate_block st = (Inr (next_block_id st), ?st1)"
    using Suc.prems(1) r1 by (rule allocate_block_ok)
  have "in_u64 (root_id ?st1)" "in_u64 (next_block_id ?st1)"
    "in_u64 (next_block_id ?st1 + int n)"
    using Suc.prems r1 by (simp_all add: in_u64_def)
  from Suc.IH [OF this] obtain st' where
    rest: "allocate_blocks n ?st1 = (Inr (map (\<lambda>i. next_block_id ?st1 + int i) [0..<n]), st')"
    and n': "next_block_id st' = next_block_id ?st1 + int n" and r': "root_id st' = root_id ?st1"
    and c': "cache st' = cache ?st1" and h': "heap st' = heap ?st1"
    and d': "if n = 0 then disk st' = disk ?st1
             else fd_read 0 BLOCK_SIZE (disk st') = header_block (root_id ?st1) (next_block_id st')"
    by blast
  have ids: "next_block_id st # map (\<lambda>i. next_block_id ?st1 + int i) [0..<n]
             = map (\<lambda>i. next_block_id st + int i) [0..<Suc n]"
    by (simp add: upt_conv_Cons map_Suc_upt [symmetric] del: upt_Suc)
  have hd: "fd_read 0 BLOCK_SIZE (disk st') = header_block (root_id st) (next_block_id st')"
  proof (cases "n = 0")
    case True
    then have "disk st' = fd_write 0 (header_block (root_id st) (next_block_id st + 1)) (disk st)"
      using d' by simp
    moreover have "next_block_id st' = next_block_id st + 1"
      using n' True by simp
    ultimately show ?thesis
      using fd_read_fd_write [of 0 "disk st" "header_block (root_id st) (next_block_id st + 1)"]
      by (simp add: length_header_block)
  next
    case False
    then show ?thesis using d' by simp
  qed
  have "allocate_blocks (Suc n) st = (Inr (map (\<lambda>i. next_block_id st + int i) [0..<Suc n]), st')"
    using a rest ids by (simp add: io_bind_def return_def)
  then show ?case
    using n' r' c' h' hd by (auto simp: add.assoc)
qed

subsection \<open>Frame rules\<close>

lemma keeps_return: "reflp R \<Longrightarrow> keeps R (return x)"
  by (simp add: keeps_def return_def reflp_def)

lemma keeps_raise: "reflp R \<Longrightarrow> keeps R (raise e)"
  by (simp add: keeps_def raise_def reflp_def)

lemma keeps_lift: "reflp R \<Longrightarrow> keeps R (lift r)"
  by (simp add: keeps_def lift_def reflp_def)

lemma keeps_attr: "reflp R \<Longrightarrow> keeps R (attr a f)"
  by (simp add: keeps_def attr_def reflp_def)

lemma keeps_get_children: "reflp R \<Longrightarrow> keeps R (get_children a)"
  by (simp add: keeps_def get_children_def reflp_def split: option.split)

lemma keeps_bind:
  assumes "transp R" "keeps R m" "\<And>x. keeps R (f x)"
  shows "keeps R (io_bind m f)"
proof -
  have "R st (snd (io_bind m f st))" for st
  proof (cases "m st")
    case (Pair r st')
    have 1: "R st st'" using assms(2) Pair by (auto simp: keeps_def dest: spec [of _ st])
    show ?thesis
    proof (cases r)
      case (Inl e)
      then show ?thesis using Pair 1 by (simp add: io_bind_def)
    next
      case (Inr x)
      have "R st' (snd (f x st'))" using assms(3) by (simp add: keeps_def)
      then show ?thesis using Pair Inr 1 assms(1) by (auto simp: io_bind_def dest: transpD)
    qed
  qed
  then show ?thesis by (simp add: keeps_def)
qed

lemma reflp_unchanged: "reflp unchanged"
  by (simp add: reflp_def unchanged_def)

lemma transp_unchanged: "transp unchanged"
  by (auto simp: transp_def unchanged_def intro: prefix_order.trans)

lemma read_node_unchanged: "keeps unchanged (read_node bid)"
  by (auto simp: keeps_def read_node_def unchanged_def io_defs
      split: option.split sum.split)

lemmas unchanged_rules =
  keeps_return [OF reflp_unchanged] keeps_raise [OF reflp_unchanged]
  keeps_lift [OF reflp_unchanged] keeps_attr [OF reflp_unchanged]
  keeps_get_children [OF reflp_unchanged] read_node_unchanged
  keeps_bind [OF transp_unchanged]

lemma search_unchanged: "keeps unchanged (search d bid key)"
proof (induction d arbitrary: bid)
  case 0
  show ?case by (simp add: unchanged_rules)
next
  case (Suc d)
  show ?case
    by (auto simp: Let_def intro!: unchanged_rules Suc.IH)
qed


lemma traverse_unchanged:
  "keeps unchanged (traverse d bid pairs)"
  "keeps unchanged (traverse_keys d node i ks pairs)"
proof (induction d bid pairs and d node i ks pairs rule: traverse_traverse_keys.induct)
  case (1 bid pairs)
  show ?case by (simp add: unchanged_rules)
next
  case (2 d bid pairs)
  show ?case
    by (auto intro!: unchanged_rules 2)
next
  case (3 d node i pairs)
  show ?case by (simp add: unchanged_rules)
next
  case (4 d node i k ks pairs)
  show ?case
    by (auto intro!: unchanged_rules 4 simp del: traverse.simps)
qed

lemma collect_unchanged: "keeps unchanged (collect d)"
  using traverse_unchanged(1) by (simp add: keeps_def collect_def)

subsection \<open>Results of statement sequences\<close>

lemma yields_return: "P x \<Longrightarrow> yields P (return x)"
  by (simp add: yields_def return_def)

lemma yields_raise: "yields P (raise e)"
  by (simp add: yields_def raise_def)

lemma yields_bind:
  assumes "\<And>x. yields P (f x)"
  shows "yields P (io_bind m f)"
proof -
  have "case fst (io_bind m f st) of Inl e \<Rightarrow> True | Inr x \<Rightarrow> P x" for st
  proof (cases "m st")
    case (Pair r st')
    show ?thesis
    proof (cases r)
      case (Inl e)
      then show ?thesis using Pair by (simp add: io_bind_def)
    next
      case (Inr x)
      then show ?thesis
        using Pair assms [of x] by (simp add: io_bind_def yields_def)
    qed
  qed
  then show ?thesis by (simp add: yields_def)
qed

subsection \<open>search\<close>

lemma scan_stops: "(scan ks key i < length ks \<and> ks ! scan ks key i < key) = False"
  by (induction ks key i rule: scan.induct) (subst (1 2) scan.simps, simp)

lemma search_yields_None: "yields (\<lambda>r. r = None) (search d bid key)"
proof (induction d arbitrary: bid)
  case 0
  show ?case by (simp add: yields_raise)
next
  case (Suc d)
  show ?case
    by (auto simp: Let_def scan_stops intro!: yields_bind yields_return yields_raise Suc.IH)
qed

lemma search_never_finds: "fst (search d bid key st) \<noteq> Inr (Some v)"
  using search_yields_None [of d bid key]
  by (auto simp: yields_def dest!: spec [of _ st] split: sum.splits)

subsection \<open>Encoding and the node writes\<close>

lemma in_u64_slots: "list_all in_u64 xs \<Longrightarrow> list_all in_u64 (slots n xs)"
  by (auto simp: slots_def list_all_iff in_u64_def)

lemma to_bytes_ok:
  assumes "in_u64 (block_id n)" "in_u64 (parent_id n)" "list_all in_u64 (keys n)"
    "list_all in_u64 (values' n)" "list_all in_u64 (num_children n)"
    "length (keys n) < 2 ^ 64"
  shows "to_bytes n = Inr (node_block n)"
proof -
  have "in_u64 (int (length (keys n)))"
    using assms(6) by (simp add: in_u64_def)
  then have "list_all in_u64 (node_fields n)"
    using assms by (simp add: node_fields_def in_u64_slots)
  then show ?thesis by (simp add: to_bytes_def)
qed

lemma fd_seek_block: "0 \<le> b \<Longrightarrow> b < 2 ^ 54 \<Longrightarrow> fd_seek (b * int BLOCK_SIZE) = Inr (nat b * BLOCK_SIZE)"
  by (simp add: fd_seek_def BLOCK_SIZE_def nat_mult_distrib)

subsection \<open>A new index\<close>

lemma fresh_index_eq:
  "fresh_index = \<lparr>disk = header_block 0 1, root_id = 0, next_block_id = 1, cache = [], heap = []\<rparr>"
  by (simp add: fresh_index_def FileManager_open_def FileManager_init_def)

subsection \<open>Lengths\<close>

lemma length_fd_write:
  "length (fd_write pos data file) = max (length file) (pos + length data)"
  by (auto simp: fd_write_def)

lemma length_node_block: "length (node_block n) = BLOCK_SIZE"
  by (simp add: node_block_def length_concat_pack_Q length_node_fields BLOCK_SIZE_def)

lemma collect_empty: "root_id st = 0 \<Longrightarrow> collect (Suc d) st = (Inr [], st)"
  by (simp add: collect_def return_def)

subsection \<open>open\<close>

lemma open_existing:
  "FileManager_open False st =
     (Inl (if take 8 (disk st) = MAGIC then TypeError else ValueError), st)"
  by (simp add: FileManager_open_def fd_read_def struct_unpack3_def BLOCK_SIZE_def Let_def)

subsection \<open>Evaluation\<close>

lemma split_child_no_children_attr:
  "children (heap st ! parent) = None \<Longrightarrow> split_child parent i st = (Inl AttributeError, st)"
  by (simp add: split_child_def io_defs)

lemma to_bytes_eval:
  "list_all in_u64 (block_id n # parent_id n # keys n @ values' n @ num_children n) \<Longrightarrow>
   length (keys n) < 2 ^ 64 \<Longrightarrow> to_bytes n = Inr (node_block n)"
  by (intro to_bytes_ok) simp_all

lemmas eval_defs = io_defs read_node_def write_node_def od_pop_def evict_def CACHE_SIZE_def
  allocate_block_def sync_header_def in_u64_def BTreeNode_init_def py_get_def py_set_def
  py_index_def py_insert_def is_leaf_def to_bytes_eval Let_def

subsection \<open>The cache\<close>

lemma length_od_set: "length (od_set k v c) \<le> Suc (length c)"
  by (induction c) auto

lemma length_evict: "length (evict c) \<le> max CACHE_SIZE (length c - 1)"
  by (auto simp: evict_def)

lemma od_set_absent: "map_of c k = None \<Longrightarrow> od_set k v c = c @ [(k, v)]"
  by (induction c) (auto split: if_splits)

lemma od_set_present: "map_of c k = Some v' \<Longrightarrow> map fst (od_set k v c) = map fst c"
  by (induction c) (auto split: if_splits)

lemma map_of_od_pop: "map_of (od_pop k c) k = None"
  by (induction c) (auto simp: od_pop_def)

lemma length_od_pop: "map_of c k = Some v \<Longrightarrow> length (od_pop k c) < length c"
proof (induction c)
  case Nil
  then show ?case by simp
next
  case (Cons a c)
  have "length (filter (\<lambda>(k', v). k' \<noteq> k) c) \<le> length c"
    by simp
  with Cons show ?case
    by (cases a) (auto simp: od_pop_def less_Suc_eq_le split: if_splits)
qed

lemma read_node_hit:
  "map_of (cache st) bid = Some a \<Longrightarrow>
     read_node bid st = (Inr a, st\<lparr>cache := od_pop bid (cache st) @ [(bid, a)]\<rparr>)"
  by (simp add: read_node_def od_set_absent map_of_od_pop)

lemma read_node_cache_size:
  "length (cache (snd (read_node bid st))) \<le> max CACHE_SIZE (length (cache st))"
proof (cases "map_of (cache st) bid")
  case None
  have "length (evict (cache st @ [x])) \<le> max CACHE_SIZE (length (cache st))" for x
    by (simp add: evict_def)
  then show ?thesis
    using None by (auto simp: read_node_def io_defs od_set_absent split: sum.split)
next
  case (Some a)
  then show ?thesis
    using length_od_pop [OF Some] by (simp add: read_node_hit)
qed

lemma write_node_cache_size:
  "length (cache (snd (write_node a st))) \<le> max CACHE_SIZE (length (cache st))"
proof -
  have "length (evict (od_set k a c)) \<le> max CACHE_SIZE (length c)" for k c
    using length_od_set [of k a c] by (auto simp: evict_def)
  then show ?thesis
    by (auto simp: write_node_def Let_def split: sum.split)
qed


lemma fd_read_fd_write_above:
  "pos + length data \<le> p \<Longrightarrow> pos + length data \<le> length file \<Longrightarrow>
     fd_read p n (fd_write pos data file) = fd_read p n file"
  by (simp add: fd_read_def fd_write_def)

subsection \<open>Decoding\<close>

lemma fmt_fields_repeated:
  "fmt_fields (concat (replicate (Suc (Suc n)) ''>Q'')) = Inl StructError"
  by (simp add: fmt_fields_def)

lemma fmt_fields_slots: "fmt_fields (concat (replicate MAX_KEYS ''>Q'')) = Inl StructError"
proof -
  have "MAX_KEYS = Suc (Suc 17)"
    by (simp add: const_defs)
  then show ?thesis
    using fmt_fields_repeated [of 17] by simp
qed

lemma fmt_fields_header: "fmt_fields HEADER_FMT = Inr 3"
  by (simp add: fmt_fields_def HEADER_FMT_def)

lemma from_bytes_raises: "from_bytes data = Inl StructError"
  by (simp add: from_bytes_def unpack_from_def calcsize_def fmt_fields_slots fmt_fields_header
      split: sum.split)

lemma read_node_miss:
  "map_of (cache st) bid = None \<Longrightarrow>
     read_node bid st =
       (Inl (if bid * int BLOCK_SIZE < 0 \<or> 2 ^ 63 \<le> bid * int BLOCK_SIZE
             then SeekError else StructError), st)"
  by (simp add: read_node_def fd_seek_def from_bytes_raises)

lemma collect_empty_cache:
  "fst (collect (Suc d) (st\<lparr>cache := []\<rparr>)) =
     (if root_id st = 0 then Inr []
      else Inl (if root_id st * int BLOCK_SIZE < 0 \<or> 2 ^ 63 \<le> root_id st * int BLOCK_SIZE
                then SeekError else StructError))"
  by (simp add: collect_def return_def io_bind_def read_node_miss)

subsection \<open>insert, and the test stores\<close>

lemma BTree_insert_eq: "BTree_insert k v st = (Inl SyntaxError, st)"
  by (simp add: BTree_insert_def raise_def)

lemma insert_all_eq: "insert_all kvs st = st"
  by (induction kvs arbitrary: st) (auto simp: BTree_insert_eq)

lemma fd_write_over: "length data = length file \<Longrightarrow> fd_write 0 data file = data"
  by (simp add: fd_write_def)

lemma four_nodes_reached:
  "snd (io_bind allocate_block (\<lambda>b1. io_bind (new_node (BTreeNode_init b1 0 [] [] [])) (\<lambda>_.
        io_bind allocate_block (\<lambda>b2. io_bind (new_node (BTreeNode_init b2 0 [] [] [])) (\<lambda>_.
        io_bind allocate_block (\<lambda>b3. io_bind (new_node (BTreeNode_init b3 0 [] [] [])) (\<lambda>_.
        io_bind allocate_block (\<lambda>b4. new_node (BTreeNode_init b4 0 [] [] []))))))))
        fresh_index) = four_nodes"
  by (simp add: fresh_index_eq four_nodes_def allocate_block_def sync_header_def io_defs
      in_u64_def fd_write_over length_header_block)

lemma four_nodes_simps:
  "cache four_nodes = []"
  "heap four_nodes = [BTreeNode_init 1 0 [] [] [], BTreeNode_init 2 0 [] [] [],
              BTreeNode_init 3 0 [] [] [], BTreeNode_init 4 0 [] [] []]"
  by (simp_all add: four_nodes_def)

lemma fd_seek_blocks:
  "fd_seek (int BLOCK_SIZE) = Inr BLOCK_SIZE"
  "fd_seek (2 * int BLOCK_SIZE) = Inr (2 * BLOCK_SIZE)"
  "fd_seek (3 * int BLOCK_SIZE) = Inr (3 * BLOCK_SIZE)"
  "fd_seek (4 * int BLOCK_SIZE) = Inr (4 * BLOCK_SIZE)"
  using fd_seek_block [of 1] fd_seek_block [of 2] fd_seek_block [of 3] fd_seek_block [of 4]
  by simp_all

lemmas cache_eval = four_nodes_simps fd_seek_blocks read_node_def write_node_def io_defs
  od_pop_def evict_def CACHE_SIZE_def BTreeNode_init_def to_bytes_eval in_u64_def Let_def
  from_bytes_raises

section \<open>Properties\<close>

subsection \<open>search\<close>

text \<open>
  C1 says that \<^verbatim>\<open>search(k)\<close> returns the inserted value of every inserted key.
  In no state, for no block and no key, does \<^verbatim>\<open>search\<close> return a value: the test
  after the scan (line 221) repeats \<^verbatim>\<open>key > node.keys[i]\<close>, which the scan has
  just made false. On a new index, with block 1 allocated and a leaf made by the
  constructor, \<^verbatim>\<open>insert_nonfull(leaf, 5, 50)\<close> puts the pair into the leaf, writes
  and caches it, and \<^verbatim>\<open>search(1, 5)\<close> returns None. After any sequence of
  \<^verbatim>\<open>insert\<close> calls on a new index, \<^verbatim>\<open>search(root_id, k)\<close> returns None for every
  key.
\<close>

theorem search_misses_inserted_key:
  "fst (search d bid key st) \<noteq> Inr (Some v)
   \<and> io_bind allocate_block (\<lambda>b.
       io_bind (new_node (BTreeNode_init b 0 [] [] [])) (\<lambda>leaf.
       io_bind (insert_nonfull (Suc d1) leaf 5 50) (\<lambda>_.
       io_bind (attr leaf keys) (\<lambda>ks.
       io_bind (search (Suc d2) b 5) (\<lambda>r. return (b, ks, r)))))) fresh_index
     = (Inr (1, [5], None),
        \<lparr>disk = fd_write BLOCK_SIZE
                  (node_block \<lparr>block_id = 1, parent_id = 0, keys = [5], values' = [50],
                                num_children = [], children = None\<rparr>)
                  (fd_write 0 (header_block 0 2) (header_block 0 1)),
         root_id = 0, next_block_id = 2, cache = [(1, 0)],
         heap = [\<lparr>block_id = 1, parent_id = 0, keys = [5], values' = [50],
                   num_children = [], children = None\<rparr>]\<rparr>)
   \<and> fst (search (Suc d2) (root_id (insert_all kvs fresh_index)) k
            (insert_all kvs fresh_index)) = Inr None"
proof -
  have sk: "fd_seek (int BLOCK_SIZE) = Inr BLOCK_SIZE"
    using fd_seek_block [of 1] by simp
  have s: "scan [5] 5 0 = 0"
    by (subst scan.simps) simp
  have leaf: "io_bind allocate_block (\<lambda>b.
       io_bind (new_node (BTreeNode_init b 0 [] [] [])) (\<lambda>leaf.
       io_bind (insert_nonfull (Suc d1) leaf 5 50) (\<lambda>_.
       io_bind (attr leaf keys) (\<lambda>ks.
       io_bind (search (Suc d2) b 5) (\<lambda>r. return (b, ks, r)))))) fresh_index
     = (Inr (1, [5], None),
        \<lparr>disk = fd_write BLOCK_SIZE
                  (node_block \<lparr>block_id = 1, parent_id = 0, keys = [5], values' = [50],
                                num_children = [], children = None\<rparr>)
                  (fd_write 0 (header_block 0 2) (header_block 0 1)),
         root_id = 0, next_block_id = 2, cache = [(1, 0)],
         heap = [\<lparr>block_id = 1, parent_id = 0, keys = [5], values' = [50],
                   num_children = [], children = None\<rparr>]\<rparr>)"
    by (simp add: fresh_index_eq shift_right.simps eval_defs sk s)
  have "fst (search (Suc d2) (root_id (insert_all kvs fresh_index)) k
            (insert_all kvs fresh_index)) = Inr None"
    by (simp add: insert_all_eq fresh_index_eq return_def)
  then show ?thesis
    using leaf search_never_finds [of d bid key st v] by blast
qed

subsection \<open>The node codec\<close>

text \<open>
  C2 says that decoding an encoded valid node gives the node back. \<^verbatim>\<open>from_bytes\<close>
  returns a node for no block at all: the slot formats \<^verbatim>\<open>'>Q'*MAX_KEYS\<close> have the
  byte-order character inside the format, and \<^verbatim>\<open>unpack_from\<close> raises
  \<^verbatim>\<open>struct.error\<close>. So it is for the block of the valid leaf with the pair
  (5, 50) and for the block of a valid internal node, which \<^verbatim>\<open>to_bytes\<close> both
  encodes.
\<close>

theorem from_bytes_always_raises:
  "from_bytes data = Inl StructError
   \<and> to_bytes (BTreeNode_init 1 0 [5] [50] [])
       = Inr (node_block (BTreeNode_init 1 0 [5] [50] []))
   \<and> from_bytes (node_block (BTreeNode_init 1 0 [5] [50] [])) = Inl StructError
   \<and> to_bytes (BTreeNode_init 2 0 [10] [110] [1, 3])
       = Inr (node_block (BTreeNode_init 2 0 [10] [110] [1, 3]))
   \<and> from_bytes (node_block (BTreeNode_init 2 0 [10] [110] [1, 3])) = Inl StructError"
proof -
  have "to_bytes (BTreeNode_init 1 0 [5] [50] [])
       = Inr (node_block (BTreeNode_init 1 0 [5] [50] []))"
    by (rule to_bytes_eval) (simp_all add: BTreeNode_init_def in_u64_def)
  moreover have "to_bytes (BTreeNode_init 2 0 [10] [110] [1, 3])
       = Inr (node_block (BTreeNode_init 2 0 [10] [110] [1, 3]))"
    by (rule to_bytes_eval) (simp_all add: BTreeNode_init_def in_u64_def)
  ultimately show ?thesis
    by (simp add: from_bytes_raises)
qed

subsection \<open>split_child\<close>

text \<open>
  C3 says that \<^verbatim>\<open>split_child\<close> leaves the first 9 pairs in the left node and
  puts the last 9 into the new right node. On a parent made by the constructor,
  as \<^verbatim>\<open>insert\<close> passes it, \<^verbatim>\<open>split_child\<close> raises AttributeError at its first
  statement and changes nothing, since \<^verbatim>\<open>parent.children\<close> does not exist. On a
  parent that has been given a \<^verbatim>\<open>children\<close> attribute, over a full cached leaf with
  the keys 1 to 19, the right node receives \<^verbatim>\<open>y.keys[:t]\<close>, the first ten pairs
  (median included), and the last nine are lost; the child list that
  \<^verbatim>\<open>to_bytes\<close> writes, \<^verbatim>\<open>num_children\<close>, is not extended.
\<close>

theorem split_child_right_node_wrong:
  "split_child (length (heap st)) i (snd (new_node (BTreeNode_init bid pid ks vs ch) st))
     = (Inl AttributeError, snd (new_node (BTreeNode_init bid pid ks vs ch) st))
   \<and> fst (split_child 1 0
        \<lparr>disk = header_block 2 3, root_id = 2, next_block_id = 3, cache = [(1, 0)],
         heap = [\<lparr>block_id = 1, parent_id = 2,
                   keys = [1, 2, 3, 4, 5, 6, 7, 8, 9, 10, 11, 12, 13, 14, 15, 16, 17, 18, 19],
                   values' = [101, 102, 103, 104, 105, 106, 107, 108, 109, 110, 111, 112,
                              113, 114, 115, 116, 117, 118, 119],
                   num_children = [], children = None\<rparr>,
                 \<lparr>block_id = 2, parent_id = 0, keys = [], values' = [],
                   num_children = [1], children = Some [1]\<rparr>]\<rparr>) = Inr ()
   \<and> heap (snd (split_child 1 0
        \<lparr>disk = header_block 2 3, root_id = 2, next_block_id = 3, cache = [(1, 0)],
         heap = [\<lparr>block_id = 1, parent_id = 2,
                   keys = [1, 2, 3, 4, 5, 6, 7, 8, 9, 10, 11, 12, 13, 14, 15, 16, 17, 18, 19],
                   values' = [101, 102, 103, 104, 105, 106, 107, 108, 109, 110, 111, 112,
                              113, 114, 115, 116, 117, 118, 119],
                   num_children = [], children = None\<rparr>,
                 \<lparr>block_id = 2, parent_id = 0, keys = [], values' = [],
                   num_children = [1], children = Some [1]\<rparr>]\<rparr>))
     = [\<lparr>block_id = 1, parent_id = 2, keys = [1, 2, 3, 4, 5, 6, 7, 8, 9],
          values' = [101, 102, 103, 104, 105, 106, 107, 108, 109],
          num_children = [], children = None\<rparr>,
        \<lparr>block_id = 2, parent_id = 0, keys = [10], values' = [110],
          num_children = [1], children = Some [1, 3]\<rparr>,
        \<lparr>block_id = 3, parent_id = 2, keys = [1, 2, 3, 4, 5, 6, 7, 8, 9, 10],
          values' = [101, 102, 103, 104, 105, 106, 107, 108, 109, 110],
          num_children = [], children = None\<rparr>]"
proof -
  have a: "split_child (length (heap st)) i (snd (new_node (BTreeNode_init bid pid ks vs ch) st))
     = (Inl AttributeError, snd (new_node (BTreeNode_init bid pid ks vs ch) st))"
    by (rule split_child_no_children_attr) (simp add: new_node_def BTreeNode_init_def)
  have sk: "fd_seek (int BLOCK_SIZE) = Inr BLOCK_SIZE"
    "fd_seek (2 * int BLOCK_SIZE) = Inr (2 * BLOCK_SIZE)"
    "fd_seek (3 * int BLOCK_SIZE) = Inr (3 * BLOCK_SIZE)"
    using fd_seek_block [of 1] fd_seek_block [of 2] fd_seek_block [of 3] by simp_all
  show ?thesis
    by (rule conjI [OF a]) (simp add: split_child_def eval_defs T_def sk)
qed

subsection \<open>traverse and collect\<close>

text \<open>
  C4 says that \<^verbatim>\<open>collect()\<close> returns every inserted pair. After any sequence of
  \<^verbatim>\<open>insert\<close> calls on a new index \<^verbatim>\<open>collect()\<close> returns the empty list. And on
  any store whose cache is empty, as it is after \<^verbatim>\<open>open\<close>, \<^verbatim>\<open>collect()\<close> returns
  the empty list when the root id is 0 and raises otherwise, at the first
  \<^verbatim>\<open>read_node\<close>: it returns no pair.
\<close>

theorem collect_after_insert_is_empty:
  "fst (collect (Suc d) (insert_all kvs fresh_index)) = Inr []
   \<and> fst (collect (Suc d) (st\<lparr>cache := []\<rparr>)) =
       (if root_id st = 0 then Inr []
        else Inl (if root_id st * int BLOCK_SIZE < 0 \<or> 2 ^ 63 \<le> root_id st * int BLOCK_SIZE
                  then SeekError else StructError))"
proof -
  have "fst (collect (Suc d) (insert_all kvs fresh_index)) = Inr []"
    by (simp add: insert_all_eq collect_empty fresh_index_eq)
  then show ?thesis
    using collect_empty_cache [of d st] by simp
qed

subsection \<open>insert\<close>

text \<open>
  C5 says that \<^verbatim>\<open>insert\<close> on an empty tree allocates a leaf, makes it the root
  and persists the header. A call of \<^verbatim>\<open>insert\<close> never returns normally, leaves
  \<^verbatim>\<open>root_id\<close> at 0 and the whole store as it was; after any sequence of calls a
  new index is still the new index, with root id 0.
\<close>

theorem insert_never_runs:
  "fst (BTree_insert k v st) \<noteq> Inr ()
   \<and> root_id (snd (BTree_insert k v (st\<lparr>root_id := 0\<rparr>))) = 0
   \<and> snd (BTree_insert k v st) = st
   \<and> insert_all kvs fresh_index = fresh_index
   \<and> root_id fresh_index = 0"
  by (simp add: BTree_insert_eq insert_all_eq fresh_index_eq)

text \<open>
  C7 says that for some sequence of insertions with a repeated key the leaf ends
  up with the key twice, without an error, and \<^verbatim>\<open>search\<close> then returns one of the
  two values. For every sequence: each \<^verbatim>\<open>insert\<close> call fails, no sequence of them
  changes the store, and \<^verbatim>\<open>search\<close> returns a value in no state. What the claim
  says of the insertion holds of \<^verbatim>\<open>insert_nonfull\<close>: for a key \<open>k\<close> and values
  \<open>v1\<close>, \<open>v2\<close> in the unsigned 64-bit range, two calls on a leaf made by the
  constructor return normally and leave the keys \<open>[k, k]\<close> with the values
  \<open>[v1, v2]\<close>; \<^verbatim>\<open>search\<close> for \<open>k\<close> then returns None.
\<close>

theorem duplicate_key_insert:
  assumes "in_u64 k" "in_u64 v1" "in_u64 v2"
  shows "fst (BTree_insert key value st) \<noteq> Inr ()
   \<and> insert_all kvs st = st
   \<and> fst (search d bid key st) \<noteq> Inr (Some v)
   \<and> io_bind allocate_block (\<lambda>b.
       io_bind (new_node (BTreeNode_init b 0 [] [] [])) (\<lambda>leaf.
       io_bind (insert_nonfull (Suc d1) leaf k v1) (\<lambda>_.
       io_bind (insert_nonfull (Suc d1) leaf k v2) (\<lambda>_.
       io_bind (attr leaf keys) (\<lambda>ks.
       io_bind (attr leaf values') (\<lambda>vs.
       io_bind (search (Suc d2) b k) (\<lambda>r. return (ks, vs, r)))))))) fresh_index
     = (Inr ([k, k], [v1, v2], None),
        \<lparr>disk = fd_write BLOCK_SIZE
                  (node_block \<lparr>block_id = 1, parent_id = 0, keys = [k, k], values' = [v1, v2],
                                num_children = [], children = None\<rparr>)
                  (fd_write BLOCK_SIZE
                     (node_block \<lparr>block_id = 1, parent_id = 0, keys = [k], values' = [v1],
                                   num_children = [], children = None\<rparr>)
                     (fd_write 0 (header_block 0 2) (header_block 0 1))),
         root_id = 0, next_block_id = 2, cache = [(1, 0)],
         heap = [\<lparr>block_id = 1, parent_id = 0, keys = [k, k], values' = [v1, v2],
                   num_children = [], children = None\<rparr>]\<rparr>)"
proof -
  have sk: "fd_seek (int BLOCK_SIZE) = Inr BLOCK_SIZE"
    using fd_seek_block [of 1] by simp
  have s: "scan [k, k] k 0 = 0"
    by (subst scan.simps) simp
  have u: "0 \<le> k" "k < 18446744073709551616" "0 \<le> v1" "v1 < 18446744073709551616"
    "0 \<le> v2" "v2 < 18446744073709551616"
    using assms by (simp_all add: in_u64_def)
  have leaf: "io_bind allocate_block (\<lambda>b.
       io_bind (new_node (BTreeNode_init b 0 [] [] [])) (\<lambda>leaf.
       io_bind (insert_nonfull (Suc d1) leaf k v1) (\<lambda>_.
       io_bind (insert_nonfull (Suc d1) leaf k v2) (\<lambda>_.
       io_bind (attr leaf keys) (\<lambda>ks.
       io_bind (attr leaf values') (\<lambda>vs.
       io_bind (search (Suc d2) b k) (\<lambda>r. return (ks, vs, r)))))))) fresh_index
     = (Inr ([k, k], [v1, v2], None),
        \<lparr>disk = fd_write BLOCK_SIZE
                  (node_block \<lparr>block_id = 1, parent_id = 0, keys = [k, k], values' = [v1, v2],
                                num_children = [], children = None\<rparr>)
                  (fd_write BLOCK_SIZE
                     (node_block \<lparr>block_id = 1, parent_id = 0, keys = [k], values' = [v1],
                                   num_children = [], children = None\<rparr>)
                     (fd_write 0 (header_block 0 2) (header_block 0 1))),
         root_id = 0, next_block_id = 2, cache = [(1, 0)],
         heap = [\<lparr>block_id = 1, parent_id = 0, keys = [k, k], values' = [v1, v2],
                   num_children = [], children = None\<rparr>]\<rparr>)"
    by (simp add: fresh_index_eq shift_right.simps eval_defs sk s u)
  show ?thesis
    using leaf search_never_finds [of d bid key st v]
    by (simp add: BTree_insert_eq insert_all_eq)
qed

text \<open>The theorem at the key 5 with the values 50 and 51.\<close>

theorem duplicate_key_insert_witness:
  "in_u64 5 \<and> in_u64 50 \<and> in_u64 51
   \<and> fst (io_bind allocate_block (\<lambda>b.
       io_bind (new_node (BTreeNode_init b 0 [] [] [])) (\<lambda>leaf.
       io_bind (insert_nonfull (Suc 0) leaf 5 50) (\<lambda>_.
       io_bind (insert_nonfull (Suc 0) leaf 5 51) (\<lambda>_.
       io_bind (attr leaf keys) (\<lambda>ks.
       io_bind (attr leaf values') (\<lambda>vs.
       io_bind (search (Suc 0) b 5) (\<lambda>r. return (ks, vs, r)))))))) fresh_index)
     = Inr ([5, 5], [50, 51], None)"
proof -
  have h: "in_u64 5" "in_u64 50" "in_u64 51"
    by (simp_all add: in_u64_def)
  show ?thesis
    using h duplicate_key_insert [OF h, of 0 0 fresh_index "[]" 0 0 0 0 0]
    by simp
qed

subsection \<open>open\<close>

text \<open>
  C6 says that opening an existing file with the right signature succeeds and
  loads the two ids. \<^verbatim>\<open>open\<close> without \<^verbatim>\<open>create\<close> never succeeds and changes
  nothing: ValueError on a wrong signature, TypeError from \<^verbatim>\<open>struct.unpack\<close> on the
  right one. On a file whose header holds root 1 and next block 2, the handle
  keeps the constructor's root 0 and next block 1.
\<close>

theorem open_existing_fails:
  "FileManager_open False st
     = (Inl (if take 8 (disk st) = MAGIC then TypeError else ValueError), st)
   \<and> FileManager_open False (FileManager_init (header_block 1 2 @ blocks))
     = (Inl TypeError, FileManager_init (header_block 1 2 @ blocks))
   \<and> root_id (FileManager_init (header_block 1 2 @ blocks)) = 0
   \<and> next_block_id (FileManager_init (header_block 1 2 @ blocks)) = 1"
  by (simp add: open_existing) (simp add: FileManager_init_def header_block_def MAGIC_def)

subsection \<open>Block allocation\<close>

text \<open>
  C8, as amended. In a state whose root id and next block id fit the header's
  unsigned 64-bit fields, also after \<open>n\<close> more allocations, \<^verbatim>\<open>allocate_block\<close>
  returns the current \<^verbatim>\<open>next_block_id\<close>, leaves it incremented by one and has
  written the header with the new value to block 0; \<open>n\<close> calls in a row return
  \<^verbatim>\<open>next_block_id\<close>, \<^verbatim>\<open>next_block_id + 1\<close>, ..., a strictly increasing sequence, so
  no id is returned twice.
\<close>

theorem allocate_block_fresh_ids:
  assumes "in_u64 (root_id st)" "in_u64 (next_block_id st)"
    "in_u64 (next_block_id st + int n)" "0 < n"
  shows "allocate_block st =
           (Inr (next_block_id st),
            st\<lparr>next_block_id := next_block_id st + 1,
               disk := fd_write 0 (header_block (root_id st) (next_block_id st + 1)) (disk st)\<rparr>)
         \<and> fd_read 0 BLOCK_SIZE (disk (snd (allocate_block st)))
             = header_block (root_id st) (next_block_id st + 1)
         \<and> (\<exists>st'. allocate_blocks n st
                     = (Inr (map (\<lambda>i. next_block_id st + int i) [0..<n]), st')
                \<and> next_block_id st' = next_block_id st + int n)
         \<and> sorted_wrt (<) (map (\<lambda>i. next_block_id st + int i) [0..<n])"
proof -
  have r1: "in_u64 (next_block_id st + 1)"
    using assms by (auto simp: in_u64_def)
  have one: "allocate_block st =
           (Inr (next_block_id st),
            st\<lparr>next_block_id := next_block_id st + 1,
               disk := fd_write 0 (header_block (root_id st) (next_block_id st + 1)) (disk st)\<rparr>)"
    using assms(1) r1 by (rule allocate_block_ok)
  have stored: "fd_read 0 BLOCK_SIZE (disk (snd (allocate_block st)))
             = header_block (root_id st) (next_block_id st + 1)"
    using fd_read_fd_write [of 0 "disk st" "header_block (root_id st) (next_block_id st + 1)"]
    by (simp add: one length_header_block)
  have many: "\<exists>st'. allocate_blocks n st
                     = (Inr (map (\<lambda>i. next_block_id st + int i) [0..<n]), st')
                \<and> next_block_id st' = next_block_id st + int n"
    using allocate_blocks_ok [OF assms(1-3)] by blast
  have incr: "sorted_wrt (<) (map (\<lambda>i. next_block_id st + int i) [0..<n])"
    by (simp add: sorted_wrt_map sorted_wrt_upt)
  show ?thesis
    using one stored many incr by blast
qed

text \<open>
  The theorem at a freshly created index and three allocations: the ids are
  1, 2 and 3.
\<close>

theorem allocate_block_fresh_ids_witness:
  "in_u64 (root_id (FileManager_init (header_block 0 1)))
   \<and> in_u64 (next_block_id (FileManager_init (header_block 0 1)))
   \<and> in_u64 (next_block_id (FileManager_init (header_block 0 1)) + int 3)
   \<and> fst (allocate_block (FileManager_init (header_block 0 1))) = Inr 1
   \<and> fd_read 0 BLOCK_SIZE (disk (snd (allocate_block (FileManager_init (header_block 0 1)))))
       = header_block 0 2
   \<and> fst (allocate_blocks 3 (FileManager_init (header_block 0 1))) = Inr [1, 2, 3]"
proof -
  let ?st = "FileManager_init (header_block 0 1)"
  have h: "in_u64 (root_id ?st)" "in_u64 (next_block_id ?st)"
    "in_u64 (next_block_id ?st + int 3)" "0 < (3::nat)"
    by (simp_all add: FileManager_init_def in_u64_def)
  have u: "[0..<3] = [0, 1, 2]"
    by (simp add: upt_conv_Cons)
  show ?thesis
    using h allocate_block_fresh_ids [OF h]
    by (auto simp: FileManager_init_def u)
qed

text \<open>
  C8 as stated, for every state, fails where the incremented id no longer fits
  the header field: with \<^verbatim>\<open>next_block_id\<close> at \<open>2^64 - 1\<close> the call raises
  \<^verbatim>\<open>struct.error\<close> from \<^verbatim>\<open>sync_header\<close>, having incremented the attribute and
  written nothing.
\<close>

theorem allocate_block_counterexample:
  "allocate_block ((FileManager_init (header_block 0 1))\<lparr>next_block_id := 2 ^ 64 - 1\<rparr>)
   = (Inl StructError, (FileManager_init (header_block 0 1))\<lparr>next_block_id := 2 ^ 64\<rparr>)"
  by (simp add: allocate_block_def sync_header_def io_defs in_u64_def FileManager_init_def)

subsection \<open>The cache\<close>

text \<open>
  C9 says that the cache holds at most 3 entries, that eviction removes the least
  recently accessed entry, that a hit in \<^verbatim>\<open>read_node\<close> makes the entry the most
  recently used, and that reading 4 distinct blocks evicts the first, which a
  later read decodes again. In every state \<^verbatim>\<open>read_node\<close> and \<^verbatim>\<open>write_node\<close> leave
  at most 3 entries (or as many as there were, if more), and a hit moves the entry
  to the end of the order. But a miss raises and caches nothing, since
  \<^verbatim>\<open>from_bytes\<close> always raises: on the store \<open>four_nodes\<close>, reading the blocks 1 to
  4 stops at the first call, and after the four nodes have been written, which
  evicts block 1, reading block 1 raises. And \<^verbatim>\<open>write_node\<close> of a block that is
  cached keeps its place in the order: after writing the nodes of the blocks
  1, 2, 3 and the node of block 1 again, the least recently accessed block is 2,
  yet writing the node of block 4 evicts block 1. (After a read hit on block 1
  instead, it evicts block 2.)
\<close>

theorem cache_write_hit_keeps_place:
  "length (cache (snd (read_node bid st))) \<le> max CACHE_SIZE (length (cache st))
   \<and> length (cache (snd (write_node a st))) \<le> max CACHE_SIZE (length (cache st))
   \<and> (case map_of (cache st) bid of
         None \<Rightarrow> read_node bid st
                   = (Inl (if bid * int BLOCK_SIZE < 0 \<or> 2 ^ 63 \<le> bid * int BLOCK_SIZE
                           then SeekError else StructError), st)
       | Some a' \<Rightarrow> read_node bid st
                     = (Inr a', st\<lparr>cache := od_pop bid (cache st) @ [(bid, a')]\<rparr>))
   \<and> io_bind (read_node 1) (\<lambda>_. io_bind (read_node 2) (\<lambda>_.
         io_bind (read_node 3) (\<lambda>_. read_node 4))) four_nodes = (Inl StructError, four_nodes)
   \<and> map fst (cache (snd (
         io_bind (write_node 0) (\<lambda>_. io_bind (write_node 1) (\<lambda>_. write_node 2))
         four_nodes))) = [1, 2, 3]
   \<and> map fst (cache (snd (
         io_bind (write_node 0) (\<lambda>_. io_bind (write_node 1) (\<lambda>_.
         io_bind (write_node 2) (\<lambda>_. io_bind (read_node 1) (\<lambda>_. write_node 3))))
         four_nodes))) = [3, 1, 4]
   \<and> map fst (cache (snd (
         io_bind (write_node 0) (\<lambda>_. io_bind (write_node 1) (\<lambda>_.
         io_bind (write_node 2) (\<lambda>_. write_node 0))) four_nodes))) = [1, 2, 3]
   \<and> least_recently_accessed [1, 2, 3, 1] [1, 2, 3] = Some 2
   \<and> map fst (cache (snd (
         io_bind (write_node 0) (\<lambda>_. io_bind (write_node 1) (\<lambda>_.
         io_bind (write_node 2) (\<lambda>_. io_bind (write_node 0) (\<lambda>_. write_node 3))))
         four_nodes))) = [2, 3, 4]
   \<and> fst (io_bind (write_node 0) (\<lambda>_. io_bind (write_node 1) (\<lambda>_.
         io_bind (write_node 2) (\<lambda>_. io_bind (write_node 3) (\<lambda>_. read_node 1))))
         four_nodes) = Inl StructError"
proof -
  have hit: "case map_of (cache st) bid of
         None \<Rightarrow> read_node bid st
                   = (Inl (if bid * int BLOCK_SIZE < 0 \<or> 2 ^ 63 \<le> bid * int BLOCK_SIZE
                           then SeekError else StructError), st)
       | Some a' \<Rightarrow> read_node bid st
                     = (Inr a', st\<lparr>cache := od_pop bid (cache st) @ [(bid, a')]\<rparr>)"
    by (simp add: read_node_hit read_node_miss split: option.split)
  have reads: "io_bind (read_node 1) (\<lambda>_. io_bind (read_node 2) (\<lambda>_.
         io_bind (read_node 3) (\<lambda>_. read_node 4))) four_nodes = (Inl StructError, four_nodes)"
    by (simp add: cache_eval)
  have w3: "map fst (cache (snd (
         io_bind (write_node 0) (\<lambda>_. io_bind (write_node 1) (\<lambda>_. write_node 2))
         four_nodes))) = [1, 2, 3]"
    by (simp add: cache_eval)
  have rh: "map fst (cache (snd (
         io_bind (write_node 0) (\<lambda>_. io_bind (write_node 1) (\<lambda>_.
         io_bind (write_node 2) (\<lambda>_. io_bind (read_node 1) (\<lambda>_. write_node 3))))
         four_nodes))) = [3, 1, 4]"
    by (simp add: cache_eval)
  have wh: "map fst (cache (snd (
         io_bind (write_node 0) (\<lambda>_. io_bind (write_node 1) (\<lambda>_.
         io_bind (write_node 2) (\<lambda>_. write_node 0))) four_nodes))) = [1, 2, 3]"
    by (simp add: cache_eval)
  have lra: "least_recently_accessed [1, 2, 3, 1] [1, 2, 3] = Some 2"
    by (simp add: least_recently_accessed_def)
  have ev: "map fst (cache (snd (
         io_bind (write_node 0) (\<lambda>_. io_bind (write_node 1) (\<lambda>_.
         io_bind (write_node 2) (\<lambda>_. io_bind (write_node 0) (\<lambda>_. write_node 3))))
         four_nodes))) = [2, 3, 4]"
    by (simp add: cache_eval)
  have again: "fst (io_bind (write_node 0) (\<lambda>_. io_bind (write_node 1) (\<lambda>_.
         io_bind (write_node 2) (\<lambda>_. io_bind (write_node 3) (\<lambda>_. read_node 1))))
         four_nodes) = Inl StructError"
    by (simp add: cache_eval)
  show ?thesis
    using read_node_cache_size [of bid st] write_node_cache_size [of a st] hit reads w3 rh wh
      lra ev again
    by blast
qed

subsection \<open>Frame of search and collect\<close>

text \<open>
  C10. \<^verbatim>\<open>search\<close> and \<^verbatim>\<open>collect\<close> are read-only: from every state, however they
  end, the file, \<^verbatim>\<open>root_id\<close> and \<^verbatim>\<open>next_block_id\<close> are unchanged, and no node
  object that existed is modified; only the cache changes (and the objects made
  for it by decoding).
\<close>

theorem search_collect_read_only:
  "disk (snd (search d bid key st)) = disk st
   \<and> root_id (snd (search d bid key st)) = root_id st
   \<and> next_block_id (snd (search d bid key st)) = next_block_id st
   \<and> prefix (heap st) (heap (snd (search d bid key st)))
   \<and> disk (snd (collect d st)) = disk st
   \<and> root_id (snd (collect d st)) = root_id st
   \<and> next_block_id (snd (collect d st)) = next_block_id st
   \<and> prefix (heap st) (heap (snd (collect d st)))"
  using search_unchanged [of d bid key] collect_unchanged [of d]
  by (simp add: keeps_def unchanged_def)

end
